theory Spec2Isabelle
  imports Main "HOL-Library.Sublist"
begin

section \<open>Strings of the platform\<close>

text \<open>
  A JavaScript string is a sequence of UTF-16 code units. The model uses \<^typ>\<open>string\<close>,
  so it covers the strings whose code units are below 256 (Latin-1); a \<^typ>\<open>char\<close> is
  one code unit. In that range the white space of \<^verbatim>\<open>String.prototype.trim\<close> and of
  the regular expression class \<^verbatim>\<open>\s\<close> is TAB, LF, VT, FF, CR, SPACE and NBSP.
\<close>

definition js_whitespace :: "char \<Rightarrow> bool" where
  "js_whitespace c \<longleftrightarrow>
     c \<in> set [CHR 0x09, CHR 0x0A, CHR 0x0B, CHR 0x0C, CHR 0x0D, CHR 0x20, CHR 0xA0]"

definition trim :: "string \<Rightarrow> string" where
  "trim s = rev (dropWhile js_whitespace (rev (dropWhile js_whitespace s)))"

text \<open>\<^verbatim>\<open>s.includes(sub)\<close>: \<open>sub\<close> occurs in \<open>s\<close> as a contiguous block.\<close>

fun str_includes :: "string \<Rightarrow> string \<Rightarrow> bool" where
  "str_includes [] sub = (sub = [])"
| "str_includes (c # cs) sub = (prefix sub (c # cs) \<or> str_includes cs sub)"

text \<open>\<^verbatim>\<open>xs.join(sep)\<close> on an array of strings.\<close>

fun join :: "string \<Rightarrow> string list \<Rightarrow> string" where
  "join sep [] = []"
| "join sep [x] = x"
| "join sep (x # y # ys) = x @ sep @ join sep (y # ys)"

text \<open>Decimal rendering of a number, as template literals and \<^verbatim>\<open>toString\<close> produce it.\<close>

definition digit_char :: "nat \<Rightarrow> char" where
  "digit_char d = ''0123456789'' ! d"

fun decimal :: "nat \<Rightarrow> string" where
  "decimal n =
     (if 10 \<le> n then decimal (n div 10) @ [digit_char (n mod 10)] else [digit_char n])"

definition decimal_int :: "int \<Rightarrow> string" where
  "decimal_int i = (if 0 \<le> i then decimal (nat i) else CHR ''-'' # decimal (nat (- i)))"

section \<open>Reference parser\<close>

text \<open>
  \<^verbatim>\<open>GITHUB_REPO_REGEX = /^https:\/\/github\.com\/([A-Za-z0-9_.-]+)\/([A-Za-z0-9_.-]+)(?:\/?|#.?)?$/i\<close>

  The flag \<^verbatim>\<open>i\<close> makes the literal prefix match letters of either case; no code unit
  from 128 on is canonicalised to an ASCII letter, so the character class stays the ASCII
  letters, digits, underscore, dot and hyphen. The dot of the tail matches every code unit
  that is not a line terminator.
\<close>

definition ascii_lower :: "char \<Rightarrow> char" where
  "ascii_lower c =
     (case map_of (zip ''ABCDEFGHIJKLMNOPQRSTUVWXYZ'' ''abcdefghijklmnopqrstuvwxyz'') c of
        Some l \<Rightarrow> l
      | None \<Rightarrow> c)"

definition repo_char :: "char \<Rightarrow> bool" where
  "repo_char c \<longleftrightarrow>
     c \<in> set ''ABCDEFGHIJKLMNOPQRSTUVWXYZabcdefghijklmnopqrstuvwxyz0123456789_.-''"

definition line_terminator :: "char \<Rightarrow> bool" where
  "line_terminator c \<longleftrightarrow> c \<in> set [CHR 0x0A, CHR 0x0D]"

text \<open>The literal part of the expression, compared without regard to case.\<close>

fun strip_prefix_ci :: "string \<Rightarrow> string \<Rightarrow> string option" where
  "strip_prefix_ci [] s = Some s"
| "strip_prefix_ci (p # ps) [] = None"
| "strip_prefix_ci (p # ps) (c # cs) =
     (if ascii_lower c = ascii_lower p then strip_prefix_ci ps cs else None)"

text \<open>The tail \<^verbatim>\<open>(?:\/?|#.?)?$\<close>: nothing, one slash, or a hash with at most one
  more code unit.\<close>

fun tail_matches :: "string \<Rightarrow> bool" where
  "tail_matches [] = True"
| "tail_matches [c] = (c = CHR ''/'' \<or> c = CHR ''#'')"
| "tail_matches [c, d] = (c = CHR ''#'' \<and> \<not> line_terminator d)"
| "tail_matches (c # d # e # r) = False"

text \<open>
  The two groups and the tail, on what follows the literal part. Neither group can hold
  a slash or a hash, so each group is the longest run of class characters at its place:
  the match, when there is one, is unique.
\<close>

definition match_owner_repo :: "string \<Rightarrow> (string \<times> string) option" where
  "match_owner_repo rest =
     (let owner = takeWhile repo_char rest;
          after_owner = dropWhile repo_char rest
      in if owner = [] then None
         else (case after_owner of
                 [] \<Rightarrow> None
               | s # rest2 \<Rightarrow>
                   if s \<noteq> CHR ''/'' then None
                   else (let repo = takeWhile repo_char rest2;
                             after_repo = dropWhile repo_char rest2
                         in if repo = [] then None
                            else if tail_matches after_repo then Some (owner, repo)
                            else None)))"

definition parseRepoUrl :: "string \<Rightarrow> (string \<times> string) option" where
  "parseRepoUrl url =
     (case strip_prefix_ci ''https://github.com/'' url of
        None \<Rightarrow> None
      | Some rest \<Rightarrow> match_owner_repo rest)"

section \<open>Data model\<close>

text \<open>
  Values as \<^verbatim>\<open>JSON.parse\<close> and property access produce them. \<open>JObj\<close> lists the own
  properties of an object, each key once, in the order in which \<^verbatim>\<open>Object.keys\<close>
  enumerates them. Numbers are restricted to integers: the code never computes with a
  number, it only tests what kind of value it holds.
\<close>

datatype jsval =
    JUndefined
  | JNull
  | JBool bool
  | JNum int
  | JStr string
  | JArr "jsval list"
  | JObj "(string \<times> jsval) list"

datatype js_error =
    Error string
  | TypeError string
  | SyntaxError string

text \<open>\<^verbatim>\<open>RepoMetadata\<close> of \<^verbatim>\<open>shared/api.ts\<close>; \<open>None\<close> is \<^verbatim>\<open>null\<close>.\<close>

record RepoMetadata =
  owner :: string
  repo :: string
  name :: string
  description :: "string option"
  languages :: "string list"
  license :: "string option"
  defaultBranch :: string
  homepage :: "string option"
  topics :: "string list"
  tree :: "string list"

text \<open>
  \<^verbatim>\<open>GeneratedSections\<close>. The declared field types are \<^verbatim>\<open>string\<close> and
  \<^verbatim>\<open>string[]\<close>, but the record is filled from a parsed reply without any check, so at
  run time a field holds whatever the reply held. A field that is absent and a field that
  is \<^verbatim>\<open>undefined\<close> are both \<open>JUndefined\<close>: the code reads the fields and tests
  them for truth, and cannot tell the two apart.
\<close>

record GeneratedSections =
  g_description :: jsval
  g_features :: jsval
  g_installation :: jsval
  g_usage :: jsval

definition empty_sections :: GeneratedSections where
  "empty_sections =
     \<lparr>g_description = JUndefined, g_features = JUndefined,
      g_installation = JUndefined, g_usage = JUndefined\<rparr>"

text \<open>The record as its declared type allows it: strings, and an array of strings.\<close>

fun is_string_or_absent :: "jsval \<Rightarrow> bool" where
  "is_string_or_absent JUndefined = True"
| "is_string_or_absent (JStr s) = True"
| "is_string_or_absent v = False"

fun is_js_string :: "jsval \<Rightarrow> bool" where
  "is_js_string (JStr s) = True"
| "is_js_string v = False"

fun is_string_array_or_absent :: "jsval \<Rightarrow> bool" where
  "is_string_array_or_absent JUndefined = True"
| "is_string_array_or_absent (JArr xs) = list_all is_js_string xs"
| "is_string_array_or_absent v = False"

definition well_typed :: "GeneratedSections \<Rightarrow> bool" where
  "well_typed g \<longleftrightarrow>
     is_string_or_absent (g_description g) \<and> is_string_array_or_absent (g_features g) \<and>
     is_string_or_absent (g_installation g) \<and> is_string_or_absent (g_usage g)"

datatype section_key = Description | Features | Installation | Usage

text \<open>\<^verbatim>\<open>GenerateReadmeResponse\<close>; \<open>filledWithGemini\<close> lists the keys that were set,
  in the order in which they were set.\<close>

record GenerateReadmeResponse =
  readme :: string
  fileName :: string
  metadata :: RepoMetadata
  filledWithGemini :: "(section_key \<times> bool) list"
  errors :: "(string \<times> string) list option"

text \<open>What the handler sends: a status with \<^verbatim>\<open>{error, code}\<close>, or the payload.\<close>

datatype http_reply =
    ErrorResponse nat string string
  | Payload GenerateReadmeResponse

section \<open>The network\<close>

text \<open>
  What \<^verbatim>\<open>fetch\<close> gives back: it rejects (a transport failure, with the message of the
  error), or it resolves to a response with a status, a status text, the body as text,
  and the body as \<^verbatim>\<open>res.json()\<close> decodes it (\<open>Inl\<close> the message of the syntax error
  when the body is not JSON).
\<close>

datatype 'a http_result =
    Transport_failure string
  | Http_response nat string string "string + 'a"

text \<open>\<^verbatim>\<open>res.ok\<close>: the status is in the range 200 to 299.\<close>

fun response_ok :: "'a http_result \<Rightarrow> bool" where
  "response_ok (Transport_failure m) = False"
| "response_ok (Http_response st st_text body js) = (200 \<le> st \<and> st \<le> 299)"

text \<open>
  The provider's replies, at the shape the fetcher reads from them and at the types the
  source declares (\<^verbatim>\<open>RepoMetadata\<close>, the type arguments of \<^verbatim>\<open>fetchJson\<close>).
  \<open>None\<close> is a field that is absent or \<^verbatim>\<open>null\<close>. The reply of the generative
  service, whose text is written by a language model, stays a dynamic value.
\<close>

record license_info =
  spdx_id :: "string option"
  license_name :: "string option"

record repo_data =
  rd_name :: "string option"
  rd_description :: "string option"
  rd_default_branch :: string
  rd_license :: "license_info option"
  rd_homepage :: "string option"
  rd_topics :: "string list option"

record tree_node =
  node_path :: string
  node_type :: string

record tree_data =
  td_tree :: "tree_node list option"

text \<open>
  The excerpt of the metadata that is serialised into the prompt. The prompt is a fixed
  text followed by this record as JSON; the service is given the record.
\<close>

record prompt_context =
  pc_name :: string
  pc_description :: "string option"
  pc_languages :: "string list"
  pc_license :: "string option"
  pc_defaultBranch :: string
  pc_homepage :: "string option"
  pc_topics :: "string list"
  pc_treePreview :: "string list"

text \<open>
  The world a request runs in: the two secrets of \<^verbatim>\<open>process.env\<close>, the provider's
  three endpoints (by URL and bearer token), the generative service (by URL and prompt
  excerpt), and \<^verbatim>\<open>JSON.parse\<close> (\<open>None\<close> when it throws a syntax error).
\<close>

record env =
  GITHUB_TOKEN :: "string option"
  GEMINI_API_KEY :: "string option"
  github_repo :: "string \<Rightarrow> string \<Rightarrow> repo_data http_result"
  github_languages :: "string \<Rightarrow> string \<Rightarrow> (string \<times> nat) list http_result"
  github_tree :: "string \<Rightarrow> string \<Rightarrow> tree_data http_result"
  gemini :: "string \<Rightarrow> prompt_context \<Rightarrow> jsval http_result"
  JSON_parse :: "string \<Rightarrow> jsval option"

text \<open>One entry of the log of calls: the URL, and whether the response was a success.\<close>

type_synonym call = "string \<times> bool"

section \<open>Dynamic values\<close>

fun nullish :: "jsval \<Rightarrow> bool" where
  "nullish JUndefined = True"
| "nullish JNull = True"
| "nullish v = False"

text \<open>Truth of a value, as \<^verbatim>\<open>!v\<close>, \<^verbatim>\<open>if (v)\<close> and \<^verbatim>\<open>Boolean\<close> see it.\<close>

fun truthy :: "jsval \<Rightarrow> bool" where
  "truthy JUndefined = False"
| "truthy JNull = False"
| "truthy (JBool b) = b"
| "truthy (JNum n) = (n \<noteq> 0)"
| "truthy (JStr s) = (s \<noteq> [])"
| "truthy (JArr xs) = True"
| "truthy (JObj ps) = True"

text \<open>
  Reading a named property of a value that is neither \<^verbatim>\<open>null\<close> nor
  \<^verbatim>\<open>undefined\<close>, for the names the code reads (\<^verbatim>\<open>candidates\<close>, \<^verbatim>\<open>content\<close>,
  \<^verbatim>\<open>parts\<close>, \<^verbatim>\<open>text\<close>, \<^verbatim>\<open>description\<close>, \<^verbatim>\<open>features\<close>, \<^verbatim>\<open>installation\<close>,
  \<^verbatim>\<open>usage\<close>): none of them is an index or a property of a built-in prototype, so only
  an object can have one.
\<close>

fun get_field :: "jsval \<Rightarrow> string \<Rightarrow> jsval" where
  "get_field (JObj ps) k = (case map_of ps k of Some v \<Rightarrow> v | None \<Rightarrow> JUndefined)"
| "get_field v k = JUndefined"

text \<open>\<^verbatim>\<open>v?.k\<close> and \<^verbatim>\<open>v?.[0]\<close>.\<close>

definition opt_get :: "jsval \<Rightarrow> string \<Rightarrow> jsval" where
  "opt_get v k = (if nullish v then JUndefined else get_field v k)"

fun opt_index0 :: "jsval \<Rightarrow> jsval" where
  "opt_index0 (JArr xs) = (case xs of [] \<Rightarrow> JUndefined | x # rest \<Rightarrow> x)"
| "opt_index0 (JStr s) = (case s of [] \<Rightarrow> JUndefined | c # rest \<Rightarrow> JStr [c])"
| "opt_index0 (JObj ps) = (case map_of ps ''0'' of Some v \<Rightarrow> v | None \<Rightarrow> JUndefined)"
| "opt_index0 v = JUndefined"

text \<open>\<^verbatim>\<open>ToString\<close>, which \<^verbatim>\<open>JSON.parse\<close> applies to its argument. An array is
  joined with commas, its \<^verbatim>\<open>null\<close> and \<^verbatim>\<open>undefined\<close> elements giving nothing.
  A number is printed with all its digits, which is what JavaScript does below
  \<open>10\<^sup>2\<^sup>1\<close> in absolute value; from there on it prints an exponent, which is
  not modelled.\<close>

fun js_to_string :: "jsval \<Rightarrow> string" where
  "js_to_string JUndefined = ''undefined''"
| "js_to_string JNull = ''null''"
| "js_to_string (JBool b) = (if b then ''true'' else ''false'')"
| "js_to_string (JNum n) = decimal_int n"
| "js_to_string (JStr s) = s"
| "js_to_string (JArr xs) = join '','' (map (\<lambda>x. if nullish x then [] else js_to_string x) xs)"
| "js_to_string (JObj ps) = ''[object Object]''"

text \<open>\<^verbatim>\<open>v.trim()\<close>: only a string has the method; on anything else the call throws
  a \<^verbatim>\<open>TypeError\<close>. The text of its message depends on the engine and on the
  expression (\<^verbatim>\<open>s.trim is not a function\<close> in the loop over the features); the model
  carries a fixed text, which the handler never sends.\<close>

fun js_trim :: "jsval \<Rightarrow> js_error + string" where
  "js_trim (JStr s) = Inr (trim s)"
| "js_trim JUndefined = Inl (TypeError ''Cannot read properties of undefined (reading 'trim')'')"
| "js_trim JNull = Inl (TypeError ''Cannot read properties of null (reading 'trim')'')"
| "js_trim v = Inl (TypeError ''trim is not a function'')"

definition bind_result :: "'x + 'v \<Rightarrow> ('v \<Rightarrow> 'x + 'w) \<Rightarrow> 'x + 'w" where
  "bind_result r f = (case r of Inl e \<Rightarrow> Inl e | Inr v \<Rightarrow> f v)"

text \<open>\<^verbatim>\<open>xs.map((s) => s.trim())\<close>: the first element that fails ends the loop.\<close>

fun map_trim :: "jsval list \<Rightarrow> js_error + string list" where
  "map_trim [] = Inr []"
| "map_trim (x # xs) =
     bind_result (js_trim x) (\<lambda>t. bind_result (map_trim xs) (\<lambda>ts. Inr (t # ts)))"

fun message :: "js_error \<Rightarrow> string" where
  "message (Error m) = m"
| "message (TypeError m) = m"
| "message (SyntaxError m) = m"

section \<open>Metadata fetcher\<close>

text \<open>\<^verbatim>\<open>encodeURIComponent\<close>: everything but letters, digits and \<^verbatim>\<open>-_.!~*'()\<close>
  becomes the percent-escaped bytes of its UTF-8 encoding.\<close>

definition uri_unreserved :: "char \<Rightarrow> bool" where
  "uri_unreserved c \<longleftrightarrow>
     c \<in> set ''ABCDEFGHIJKLMNOPQRSTUVWXYZabcdefghijklmnopqrstuvwxyz0123456789-_.!~*'()''"

definition percent_byte :: "nat \<Rightarrow> string" where
  "percent_byte n = [CHR ''%'', ''0123456789ABCDEF'' ! (n div 16), ''0123456789ABCDEF'' ! (n mod 16)]"

definition encode_unit :: "char \<Rightarrow> string" where
  "encode_unit c =
     (if uri_unreserved c then [c]
      else if (of_char c :: nat) < 128 then percent_byte (of_char c)
      else percent_byte (192 + of_char c div 64) @ percent_byte (128 + of_char c mod 64))"

definition encodeURIComponent :: "string \<Rightarrow> string" where
  "encodeURIComponent s = concat (map encode_unit s)"

text \<open>\<^verbatim>\<open>fetchJson\<close>, applied to what \<^verbatim>\<open>fetch\<close> gave back.\<close>

fun fetchJson :: "'a http_result \<Rightarrow> js_error + 'a" where
  "fetchJson (Transport_failure m) = Inl (TypeError m)"
| "fetchJson (Http_response st st_text body js) =
     (if \<not> (200 \<le> st \<and> st \<le> 299)
      then Inl (Error (''HTTP '' @ decimal st @ '' '' @ st_text @ '': '' @ body))
      else (case js of Inl m \<Rightarrow> Inl (SyntaxError m) | Inr v \<Rightarrow> Inr v))"

definition repos_base :: "string \<Rightarrow> string \<Rightarrow> string" where
  "repos_base ow rp = ''https://api.github.com/repos/'' @ ow @ ''/'' @ rp"

definition tree_url :: "string \<Rightarrow> string \<Rightarrow> string" where
  "tree_url base branch = base @ ''/git/trees/'' @ encodeURIComponent branch @ ''?recursive=1''"

text \<open>\<^verbatim>\<open>repoData.license?.spdx_id ?? repoData.license?.name ?? null\<close>\<close>

definition license_of :: "repo_data \<Rightarrow> string option" where
  "license_of rd =
     (case rd_license rd of
        None \<Rightarrow> None
      | Some l \<Rightarrow> (case spdx_id l of Some i \<Rightarrow> Some i | None \<Rightarrow> license_name l))"

text \<open>\<^verbatim>\<open>x || null\<close> on a string.\<close>

definition or_null :: "string option \<Rightarrow> string option" where
  "or_null x = (case x of Some (c # cs) \<Rightarrow> Some (c # cs) | _ \<Rightarrow> None)"

definition tree_paths :: "tree_data \<Rightarrow> string list" where
  "tree_paths td =
     take 500 (map node_path
       (filter (\<lambda>n. node_type n = ''blob'' \<or> node_type n = ''tree'')
          (case td_tree td of None \<Rightarrow> [] | Some ns \<Rightarrow> ns)))"

text \<open>
  The three calls in sequence; a call that throws ends the function at once. The result
  comes with the log of the calls that were made.
\<close>

definition fetchRepoMetadata ::
  "env \<Rightarrow> string \<Rightarrow> string \<Rightarrow> string \<Rightarrow> (js_error + RepoMetadata) \<times> call list" where
  "fetchRepoMetadata e ow rp token =
     (let base = repos_base ow rp;
          r1 = github_repo e base token;
          log1 = [(base, response_ok r1)]
      in case fetchJson r1 of
           Inl err \<Rightarrow> (Inl err, log1)
         | Inr repoData \<Rightarrow>
             (let r2 = github_languages e (base @ ''/languages'') token;
                  log2 = log1 @ [(base @ ''/languages'', response_ok r2)]
              in case fetchJson r2 of
                   Inl err \<Rightarrow> (Inl err, log2)
                 | Inr langsData \<Rightarrow>
                     (let branch = rd_default_branch repoData;
                          r3 = github_tree e (tree_url base branch) token;
                          log3 = log2 @ [(tree_url base branch, response_ok r3)]
                      in case fetchJson r3 of
                           Inl err \<Rightarrow> (Inl err, log3)
                         | Inr treeData \<Rightarrow>
                             (Inr \<lparr>owner = ow, repo = rp,
                                   name = (case rd_name repoData of Some n \<Rightarrow> n | None \<Rightarrow> rp),
                                   description = rd_description repoData,
                                   languages = map fst langsData,
                                   license = license_of repoData,
                                   defaultBranch = branch,
                                   homepage = or_null (rd_homepage repoData),
                                   topics = (case rd_topics repoData of Some ts \<Rightarrow> ts | None \<Rightarrow> []),
                                   tree = tree_paths treeData\<rparr>,
                              log3))))"

section \<open>Document assembler\<close>

definition not_specified :: string where
  "not_specified = ''Not specified.''"

definition fence :: string where
  "fence = ''```''"

text \<open>\<^verbatim>\<open>techStack.split(/,\s*/)\<close>: the text is cut at every comma, and the white space
  that follows the comma goes with it.\<close>

function split_comma :: "string \<Rightarrow> string \<Rightarrow> string list" where
  "split_comma cur [] = [rev cur]"
| "split_comma cur (c # cs) =
     (if c = CHR '','' then rev cur # split_comma [] (dropWhile js_whitespace cs)
      else split_comma (c # cur) cs)"
  by pat_completeness auto
termination
  by (relation "measure (\<lambda>(cur, s). length s)")
     (auto simp: length_dropWhile_le less_Suc_eq_le)

text \<open>The values of the sections, as the constants at the head of \<^verbatim>\<open>buildReadme\<close>.\<close>

definition title_of :: "RepoMetadata \<Rightarrow> string" where
  "title_of meta = (if name meta \<noteq> [] then name meta else owner meta @ ''/'' @ repo meta)"

definition description_of :: "RepoMetadata \<Rightarrow> GeneratedSections \<Rightarrow> js_error + string" where
  "description_of meta generated =
     js_trim (if \<not> nullish (g_description generated) then g_description generated
              else (case description meta of Some d \<Rightarrow> JStr d | None \<Rightarrow> JStr not_specified))"

definition featuresArr_of :: "GeneratedSections \<Rightarrow> js_error + string list" where
  "featuresArr_of generated =
     (if nullish (g_features generated) then Inr []
      else (case g_features generated of
              JArr xs \<Rightarrow> bind_result (map_trim xs) (\<lambda>ts. Inr (filter (\<lambda>t. t \<noteq> []) ts))
            | _ \<Rightarrow> Inl (TypeError ''map is not a function'')))"

definition installation_of :: "GeneratedSections \<Rightarrow> js_error + string" where
  "installation_of generated =
     js_trim (if \<not> nullish (g_installation generated) then g_installation generated
              else JStr not_specified)"

definition usage_of :: "GeneratedSections \<Rightarrow> js_error + string" where
  "usage_of generated =
     js_trim (if \<not> nullish (g_usage generated) then g_usage generated else JStr not_specified)"

definition techStack_of :: "RepoMetadata \<Rightarrow> string" where
  "techStack_of meta =
     (if languages meta \<noteq> [] then join '', '' (languages meta) else not_specified)"

definition structureLines_of :: "RepoMetadata \<Rightarrow> string list" where
  "structureLines_of meta = (if tree meta \<noteq> [] then tree meta else [not_specified])"

definition licenseText_of :: "RepoMetadata \<Rightarrow> string" where
  "licenseText_of meta = (case license meta of Some l \<Rightarrow> l | None \<Rightarrow> not_specified)"

text \<open>What is pushed for each section, from the value of the section.\<close>

definition installation_block :: "string \<Rightarrow> string" where
  "installation_block installation =
     (if str_includes installation fence then installation
      else fence @ ''bash'' @ [CHR 0x0A] @ installation @ [CHR 0x0A] @ fence)"

definition usage_block :: "string \<Rightarrow> string" where
  "usage_block usage =
     (if str_includes usage fence then usage
      else if usage \<noteq> not_specified then fence @ [CHR 0x0A] @ usage @ [CHR 0x0A] @ fence
      else usage)"

definition techStack_block :: "string \<Rightarrow> string" where
  "techStack_block techStack =
     join [CHR 0x0A] (map (\<lambda>t. ''- '' @ t) (split_comma [] techStack))"

definition structure_block :: "string list \<Rightarrow> string" where
  "structure_block structureLines =
     (case structureLines of
        [] \<Rightarrow> not_specified
      | l # ls \<Rightarrow>
          if l \<noteq> not_specified
          then fence @ [CHR 0x0A] @ join [CHR 0x0A] structureLines @ [CHR 0x0A] @ fence
          else not_specified)"

text \<open>
  The array \<^verbatim>\<open>parts\<close>, as the sequence of \<^verbatim>\<open>parts.push\<close> calls fills it: a
  heading line, the lines of the section and an empty line, eight times over.
\<close>

definition parts_of ::
  "string \<Rightarrow> string \<Rightarrow> string list \<Rightarrow> string \<Rightarrow> string \<Rightarrow> string \<Rightarrow> string \<Rightarrow> string
     \<Rightarrow> string list" where
  "parts_of title descr features inst usg tech struct lic =
     [''# '' @ title, [],
      ''## Description'', descr, [],
      ''## Features'']
     @ map (\<lambda>f. ''- '' @ f) features
     @ [[],
        ''## Installation Guide'', inst, [],
        ''## Usage'', usg, [],
        ''## Tech Stack'', tech, [],
        ''## Project Structure'', struct, [],
        ''## License Information'', lic, []]"

text \<open>
  \<^verbatim>\<open>buildReadme\<close> up to the final join. The four values that come from the generated
  record are computed first, in the order of the source; the first one that throws ends
  the function. The parameter \<^verbatim>\<open>filled\<close> is not read.
\<close>

definition buildReadme_parts ::
  "RepoMetadata \<Rightarrow> GeneratedSections \<Rightarrow> (section_key \<times> bool) list \<Rightarrow> js_error + string list" where
  "buildReadme_parts meta generated filled =
     bind_result (description_of meta generated) (\<lambda>descr.
     bind_result (featuresArr_of generated) (\<lambda>featuresArr.
     bind_result (installation_of generated) (\<lambda>installation.
     bind_result (usage_of generated) (\<lambda>usage.
       Inr (parts_of (title_of meta) descr
              (if featuresArr \<noteq> [] then featuresArr else [not_specified])
              (installation_block installation)
              (usage_block usage)
              (techStack_block (techStack_of meta))
              (structure_block (structureLines_of meta))
              (licenseText_of meta))))))"

definition buildReadme ::
  "RepoMetadata \<Rightarrow> GeneratedSections \<Rightarrow> (section_key \<times> bool) list \<Rightarrow> js_error + string" where
  "buildReadme meta generated filled =
     bind_result (buildReadme_parts meta generated filled) (\<lambda>parts. Inr (join [CHR 0x0A] parts))"

section \<open>Narrative generator\<close>

definition gemini_url :: "string \<Rightarrow> string" where
  "gemini_url apiKey =
     ''https://generativelanguage.googleapis.com/v1beta/models/gemini-1.5-flash-latest:generateContent?key=''
     @ encodeURIComponent apiKey"

definition prompt_of :: "RepoMetadata \<Rightarrow> prompt_context" where
  "prompt_of meta =
     \<lparr>pc_name = name meta, pc_description = description meta, pc_languages = languages meta,
      pc_license = license meta, pc_defaultBranch = defaultBranch meta,
      pc_homepage = homepage meta, pc_topics = topics meta,
      pc_treePreview = take 120 (tree meta)\<rparr>"

text \<open>\<^verbatim>\<open>data?.candidates?.[0]?.content?.parts?.[0]?.text ?? ""\<close>\<close>

definition reply_text :: "jsval \<Rightarrow> jsval" where
  "reply_text data =
     (let t = opt_get (opt_index0 (opt_get (opt_get (opt_index0 (opt_get data ''candidates''))
                 ''content'') ''parts'')) ''text''
      in if nullish t then JStr [] else t)"

text \<open>
  The \<^verbatim>\<open>try\<close> block at the end of \<^verbatim>\<open>callGemini\<close>: a reply that does not parse, and a
  reply that parses to \<^verbatim>\<open>null\<close> (reading a property of it throws), both end in the
  \<^verbatim>\<open>catch\<close>, which returns the empty record.
\<close>

definition parse_sections :: "env \<Rightarrow> jsval \<Rightarrow> GeneratedSections" where
  "parse_sections e text =
     (case JSON_parse e (js_to_string text) of
        None \<Rightarrow> empty_sections
      | Some parsed \<Rightarrow>
          if nullish parsed then empty_sections
          else \<lparr>g_description = get_field parsed ''description'',
                g_features = (case get_field parsed ''features'' of
                                JArr xs \<Rightarrow> JArr xs
                              | _ \<Rightarrow> JUndefined),
                g_installation = get_field parsed ''installation'',
                g_usage = get_field parsed ''usage''\<rparr>)"

definition callGemini ::
  "env \<Rightarrow> string \<Rightarrow> RepoMetadata \<Rightarrow> (js_error + GeneratedSections) \<times> call list" where
  "callGemini e apiKey meta =
     (let url = gemini_url apiKey;
          res = gemini e url (prompt_of meta);
          log = [(url, response_ok res)]
      in case res of
           Transport_failure m \<Rightarrow> (Inl (TypeError m), log)
         | Http_response st st_text body js \<Rightarrow>
             if \<not> (200 \<le> st \<and> st \<le> 299)
             then (Inl (Error (''Gemini API error '' @ decimal st @ '': '' @ body)), log)
             else (case js of
                     Inl m \<Rightarrow> (Inl (SyntaxError m), log)
                   | Inr data \<Rightarrow> (Inr (parse_sections e (reply_text data)), log)))"

section \<open>Orchestrator\<close>

text \<open>\<^verbatim>\<open>!process.env.X\<close> is false when the variable is set to a string that is not empty.\<close>

fun env_set :: "string option \<Rightarrow> bool" where
  "env_set (Some (c # cs)) = True"
| "env_set v = False"

text \<open>\<^verbatim>\<open>!meta.description || meta.description.trim().length < 5\<close>\<close>

definition needDescription :: "RepoMetadata \<Rightarrow> bool" where
  "needDescription meta =
     (case description meta of
        None \<Rightarrow> True
      | Some d \<Rightarrow> d = [] \<or> length (trim d) < 5)"

text \<open>
  The narrative stage of the handler, from \<^verbatim>\<open>let generated = {}\<close> to the end of the
  \<^verbatim>\<open>if (geminiKey)\<close> block: the record after the stage, the errors the stage
  recorded, and the calls it made. An exception of \<^verbatim>\<open>callGemini\<close> is caught here.
\<close>

definition narrative_stage ::
  "env \<Rightarrow> RepoMetadata \<Rightarrow> GeneratedSections \<times> (string \<times> string) list \<times> call list" where
  "narrative_stage e meta =
     (case GEMINI_API_KEY e of
        Some (c # cs) \<Rightarrow>
          (case callGemini e (c # cs) meta of
             (Inl err, log) \<Rightarrow>
               (empty_sections,
                [(''GEMINI_API_ERROR'', take 500 (''Gemini API error: '' @ message err))], log)
           | (Inr g, log) \<Rightarrow> (g, [], log))
      | _ \<Rightarrow> (empty_sections, [], []))"

text \<open>\<^verbatim>\<open>if (!generated.description && needDescription && meta.description)
  generated.description = meta.description\<close>\<close>

definition fill_description :: "RepoMetadata \<Rightarrow> GeneratedSections \<Rightarrow> GeneratedSections" where
  "fill_description meta generated =
     (case description meta of
        Some (c # cs) \<Rightarrow>
          if \<not> truthy (g_description generated) \<and> needDescription meta
          then generated\<lparr>g_description := JStr (c # cs)\<rparr>
          else generated
      | _ \<Rightarrow> generated)"

text \<open>\<^verbatim>\<open>Object.keys(generated).forEach((k) => { if (generated[k]) filled[k] = true })\<close>\<close>

fun section_value :: "GeneratedSections \<Rightarrow> section_key \<Rightarrow> jsval" where
  "section_value g Description = g_description g"
| "section_value g Features = g_features g"
| "section_value g Installation = g_installation g"
| "section_value g Usage = g_usage g"

definition mark_filled :: "GeneratedSections \<Rightarrow> (section_key \<times> bool) list" where
  "mark_filled generated =
     map (\<lambda>k. (k, True))
       (filter (\<lambda>k. truthy (section_value generated k)) [Description, Features, Installation, Usage])"

text \<open>The end of the handler, from the marking of the filled sections on. An exception
  of \<^verbatim>\<open>buildReadme\<close> is caught by the outer \<^verbatim>\<open>catch\<close> of the handler.\<close>

definition respond ::
  "RepoMetadata \<Rightarrow> GeneratedSections \<Rightarrow> (string \<times> string) list \<Rightarrow> http_reply" where
  "respond meta generated errs =
     (let filled = mark_filled generated
      in case buildReadme meta generated filled of
           Inl err \<Rightarrow> ErrorResponse 500 ''Unexpected server error.'' ''INTERNAL_ERROR''
         | Inr text \<Rightarrow>
             Payload \<lparr>readme = text, fileName = repo meta @ ''-README.md'', metadata = meta,
                      filledWithGemini = filled,
                      errors = (if errs \<noteq> [] then Some errs else None)\<rparr>)"

text \<open>
  \<^verbatim>\<open>generateReadmeRoute\<close>, on the field \<^verbatim>\<open>repoUrl\<close> of the request body (\<open>None\<close> when
  the body or the field is missing). The result is the reply and the log of the calls
  made to the network, in order.
\<close>

definition generateReadmeRoute :: "env \<Rightarrow> string option \<Rightarrow> http_reply \<times> call list" where
  "generateReadmeRoute e body_repoUrl =
     (case map_option trim body_repoUrl of
        None \<Rightarrow> (ErrorResponse 400 ''Repository URL is required.'' ''MISSING_REPO_URL'', [])
      | Some repoUrl \<Rightarrow>
          if repoUrl = []
          then (ErrorResponse 400 ''Repository URL is required.'' ''MISSING_REPO_URL'', [])
          else (case parseRepoUrl repoUrl of
                  None \<Rightarrow>
                    (ErrorResponse 400
                       ''Invalid GitHub repository URL. Expected https://github.com/<owner>/<repo>''
                       ''INVALID_REPO_URL'', [])
                | Some (ow, rp) \<Rightarrow>
                    (case GITHUB_TOKEN e of
                       Some (c # cs) \<Rightarrow>
                         (let errors0 =
                                (if env_set (GEMINI_API_KEY e) then []
                                 else [(''MISSING_GEMINI_API_KEY'',
                                        ''Server missing GEMINI_API_KEY; generated content may be limited.'')])
                          in case fetchRepoMetadata e ow rp (c # cs) of
                               (Inl err, log) \<Rightarrow>
                                 (ErrorResponse 502 (take 500 (''GitHub API error: '' @ message err))
                                    ''GITHUB_API_ERROR'', log)
                             | (Inr meta, log) \<Rightarrow>
                                 (case narrative_stage e meta of
                                    (g, errs, log2) \<Rightarrow>
                                      (respond meta (fill_description meta g) (errors0 @ errs),
                                       log @ log2)))
                     | _ \<Rightarrow>
                         (ErrorResponse 500 ''Server missing GITHUB_TOKEN environment variable.''
                            ''MISSING_GITHUB_TOKEN'', []))))"

section \<open>Notions used in the statements\<close>

text \<open>The text of a field that holds a string, and a default for a field that holds none.\<close>

fun text_of :: "jsval \<Rightarrow> string \<Rightarrow> string" where
  "text_of (JStr s) d = s"
| "text_of v d = d"

fun elements_of :: "jsval \<Rightarrow> jsval list" where
  "elements_of (JArr xs) = xs"
| "elements_of v = []"

text \<open>
  The three failures of the generative service that the narrative stage has to absorb:
  a transport error, a response that is not a success, and a payload that does not parse
  (the body of the response is not JSON, or the text of the reply is not).
\<close>

definition reply_unusable :: "env \<Rightarrow> jsval http_result \<Rightarrow> bool" where
  "reply_unusable e r =
     (case r of
        Transport_failure m \<Rightarrow> True
      | Http_response st st_text body js \<Rightarrow>
          \<not> (200 \<le> st \<and> st \<le> 299) \<or>
          (case js of
             Inl m \<Rightarrow> True
           | Inr data \<Rightarrow> JSON_parse e (js_to_string (reply_text data)) = None))"

text \<open>
  The pattern of a reference as the specification words it: \<^verbatim>\<open>https://<host>/<owner>/<name>\<close>
  with owner and name over letters, digits, dot, underscore and hyphen, and an optional
  trailing slash or fragment.
\<close>

definition spec_reference_pattern :: "string \<Rightarrow> bool" where
  "spec_reference_pattern s \<longleftrightarrow>
     (\<exists>host ow rp tl.
        s = ''https://'' @ host @ ''/'' @ ow @ ''/'' @ rp @ tl \<and>
        host \<noteq> [] \<and> CHR ''/'' \<notin> set host \<and>
        ow \<noteq> [] \<and> rp \<noteq> [] \<and> list_all repo_char ow \<and> list_all repo_char rp \<and>
        (tl = [] \<or> tl = ''/'' \<or> (\<exists>fragment. tl = CHR ''#'' # fragment)))"

text \<open>
  The pattern the parser accepts among the inputs without a hash: the fixed prefix
  \<^verbatim>\<open>https://github.com/\<close> in either case, owner, slash, name, and at most one trailing
  slash.
\<close>

definition github_reference :: "string \<Rightarrow> string \<Rightarrow> string \<Rightarrow> bool" where
  "github_reference s ow rp \<longleftrightarrow>
     (\<exists>pre tl.
        s = pre @ ow @ ''/'' @ rp @ tl \<and>
        map ascii_lower pre = ''https://github.com/'' \<and>
        ow \<noteq> [] \<and> rp \<noteq> [] \<and> list_all repo_char ow \<and> list_all repo_char rp \<and>
        (tl = [] \<or> tl = ''/''))"

section \<open>A sample repository\<close>

definition widget_meta :: RepoMetadata where
  "widget_meta =
     \<lparr>owner = ''acme'', repo = ''widget'', name = ''widget'',
      description = Some ''A widget toolkit'',
      languages = [''TypeScript'', ''CSS''], license = Some ''MIT'',
      defaultBranch = ''main'', homepage = None, topics = [],
      tree = [''src'', ''src/index.ts'']\<rparr>"

definition bare_meta :: RepoMetadata where
  "bare_meta =
     \<lparr>owner = ''acme'', repo = ''widget'', name = ''widget'', description = None,
      languages = [], license = None, defaultBranch = ''main'', homepage = None,
      topics = [], tree = []\<rparr>"

definition widget_repo_data :: repo_data where
  "widget_repo_data =
     \<lparr>rd_name = Some ''widget'', rd_description = Some ''A widget toolkit'',
      rd_default_branch = ''main'',
      rd_license = Some \<lparr>spdx_id = Some ''MIT'', license_name = Some ''MIT License''\<rparr>,
      rd_homepage = None, rd_topics = Some []\<rparr>"

definition widget_tree :: tree_data where
  "widget_tree =
     \<lparr>td_tree = Some [\<lparr>node_path = ''src'', node_type = ''tree''\<rparr>,
                      \<lparr>node_path = ''src/index.ts'', node_type = ''blob''\<rparr>,
                      \<lparr>node_path = ''vendor/lib'', node_type = ''commit''\<rparr>]\<rparr>"

text \<open>Both secrets are set, the provider answers every call, the generative service
  cannot be reached.\<close>

definition widget_env :: env where
  "widget_env =
     \<lparr>GITHUB_TOKEN = Some ''token'', GEMINI_API_KEY = Some ''key'',
      github_repo = (\<lambda>url tok. Http_response 200 ''OK'' [] (Inr widget_repo_data)),
      github_languages =
        (\<lambda>url tok. Http_response 200 ''OK'' [] (Inr [(''TypeScript'', 1200), (''CSS'', 300)])),
      github_tree = (\<lambda>url tok. Http_response 200 ''OK'' [] (Inr widget_tree)),
      gemini = (\<lambda>url ctx. Transport_failure ''fetch failed''),
      JSON_parse = (\<lambda>s. None)\<rparr>"

text \<open>The envelope in which the generative service returns a text.\<close>

definition gemini_reply :: "string \<Rightarrow> jsval" where
  "gemini_reply t =
     JObj [(''candidates'',
            JArr [JObj [(''content'', JObj [(''parts'', JArr [JObj [(''text'', JStr t)]])])]])]"

text \<open>The sample world in which the service replies with the text \<open>t\<close>, which
  \<^verbatim>\<open>JSON.parse\<close> reads as \<open>parsed\<close>.\<close>

definition env_with_reply :: "string \<Rightarrow> jsval \<Rightarrow> env" where
  "env_with_reply t parsed =
     widget_env
       \<lparr>gemini := (\<lambda>url ctx. Http_response 200 ''OK'' [] (Inr (gemini_reply t))),
        JSON_parse := (\<lambda>s. if s = t then Some parsed else None)\<rparr>"

text \<open>The payload of a reply, when it has one.\<close>

fun payload_of :: "http_reply \<Rightarrow> GenerateReadmeResponse option" where
  "payload_of (Payload p) = Some p"
| "payload_of (ErrorResponse st msg code) = None"

text \<open>Three replies of the generative service, each with what \<^verbatim>\<open>JSON.parse\<close> reads in it.\<close>

definition features_reply_text :: string where
  \<open>features_reply_text = ''{"features":["Fast",1]}''\<close>

definition features_reply_parsed :: jsval where
  "features_reply_parsed = JObj [(''features'', JArr [JStr ''Fast'', JNum 1])]"

definition number_reply_text :: string where
  \<open>number_reply_text = ''{"description":5,"usage":"npm start"}''\<close>

definition number_reply_parsed :: jsval where
  "number_reply_parsed = JObj [(''description'', JNum 5), (''usage'', JStr ''npm start'')]"

definition blank_reply_text :: string where
  \<open>blank_reply_text = ''{"description":""}''\<close>

definition blank_reply_parsed :: jsval where
  "blank_reply_parsed = JObj [(''description'', JStr [])]"

text \<open>The sample world without a key of the generative service, for a repository whose
  description is three letters long.\<close>

definition short_description_env :: env where
  "short_description_env =
     widget_env
       \<lparr>GEMINI_API_KEY := None,
        github_repo :=
          (\<lambda>url tok. Http_response 200 ''OK'' []
                        (Inr (widget_repo_data\<lparr>rd_description := Some ''Kit''\<rparr>)))\<rparr>"

section \<open>Auxiliary facts\<close>

subsection \<open>Strings\<close>





subsection \<open>The fetcher and the secrets\<close>

lemma fetchJson_Inr_ok: "fetchJson r = Inr v \<Longrightarrow> response_ok r"
  by (cases r) (auto split: if_splits sum.splits)

lemma fetchJson_not_ok: "\<not> response_ok r \<Longrightarrow> \<exists>err. fetchJson r = Inl err"
  by (cases r) auto

lemma parseRepoUrl_Nil: "parseRepoUrl [] = None"
  by (simp add: parseRepoUrl_def)

lemma env_set_iff: "env_set v \<longleftrightarrow> (\<exists>c cs. v = Some (c # cs))"
  by (cases v rule: env_set.cases) auto

subsection \<open>The assembler on a record of the declared type\<close>

lemma js_trim_text:
  "is_string_or_absent v \<Longrightarrow> \<not> nullish v \<Longrightarrow> js_trim v = Inr (trim (text_of v d))"
  by (cases v) auto

lemma text_of_absent: "is_string_or_absent v \<Longrightarrow> nullish v \<Longrightarrow> text_of v d = d"
  by (cases v) auto

lemma map_trim_strings:
  "list_all is_js_string xs \<Longrightarrow> map_trim xs = Inr (map (\<lambda>x. trim (text_of x [])) xs)"
proof (induction xs)
  case Nil
  then show ?case by simp
next
  case (Cons x xs)
  then obtain s where "x = JStr s" by (cases x) auto
  with Cons show ?case by (simp add: bind_result_def)
qed

lemma description_of_typed:
  assumes "is_string_or_absent (g_description g)"
  shows "description_of meta g =
           Inr (trim (text_of (g_description g)
                  (case description meta of Some d \<Rightarrow> d | None \<Rightarrow> not_specified)))"
  using assms by (cases "g_description g") (auto simp: description_of_def split: option.splits)

lemma installation_of_typed:
  assumes "is_string_or_absent (g_installation g)"
  shows "installation_of g = Inr (trim (text_of (g_installation g) not_specified))"
  using assms by (cases "g_installation g") (auto simp: installation_of_def)

lemma usage_of_typed:
  assumes "is_string_or_absent (g_usage g)"
  shows "usage_of g = Inr (trim (text_of (g_usage g) not_specified))"
  using assms by (cases "g_usage g") (auto simp: usage_of_def)

lemma featuresArr_of_typed:
  assumes "is_string_array_or_absent (g_features g)"
  shows "featuresArr_of g =
           Inr (filter (\<lambda>t. t \<noteq> []) (map (\<lambda>x. trim (text_of x [])) (elements_of (g_features g))))"
  using assms
  by (cases "g_features g") (auto simp: featuresArr_of_def map_trim_strings bind_result_def)

lemma buildReadme_parts_typed:
  assumes "well_typed g"
  shows "buildReadme_parts meta g filled =
           Inr (parts_of (title_of meta)
                  (trim (text_of (g_description g)
                     (case description meta of Some d \<Rightarrow> d | None \<Rightarrow> not_specified)))
                  (let fs = filter (\<lambda>t. t \<noteq> [])
                              (map (\<lambda>x. trim (text_of x [])) (elements_of (g_features g)))
                   in if fs \<noteq> [] then fs else [not_specified])
                  (installation_block (trim (text_of (g_installation g) not_specified)))
                  (usage_block (trim (text_of (g_usage g) not_specified)))
                  (techStack_block (techStack_of meta))
                  (structure_block (structureLines_of meta))
                  (licenseText_of meta))"
  using assms
  by (simp add: buildReadme_parts_def well_typed_def description_of_typed featuresArr_of_typed
        installation_of_typed usage_of_typed bind_result_def Let_def)

lemma well_typed_empty: "well_typed empty_sections"
  by (simp add: well_typed_def empty_sections_def)

lemma well_typed_fill: "well_typed g \<Longrightarrow> well_typed (fill_description meta g)"
  by (auto simp: well_typed_def fill_description_def split: option.splits list.splits)

lemma respond_typed:
  assumes "well_typed g"
  shows "\<exists>p. respond meta g errs = Payload p \<and> metadata p = meta \<and>
              buildReadme meta g (mark_filled g) = Inr (readme p) \<and>
              errors p = (if errs \<noteq> [] then Some errs else None)"
  using buildReadme_parts_typed[OF assms, of meta "mark_filled g"]
  by (simp add: respond_def buildReadme_def bind_result_def Let_def)

subsection \<open>The narrative stage on an unusable reply\<close>

lemma callGemini_unusable:
  assumes "reply_unusable e (gemini e (gemini_url k) (prompt_of meta))"
  shows "(\<exists>err. fst (callGemini e k meta) = Inl err) \<or>
         fst (callGemini e k meta) = Inr empty_sections"
proof (cases "gemini e (gemini_url k) (prompt_of meta)")
  case (Transport_failure m)
  then show ?thesis by (simp add: callGemini_def)
next
  case (Http_response st st_text body js)
  show ?thesis
  proof (cases "200 \<le> st \<and> st \<le> 299")
    case False
    with Http_response show ?thesis by (simp add: callGemini_def)
  next
    case True
    show ?thesis
    proof (cases js)
      case (Inl m)
      with Http_response True show ?thesis by (simp add: callGemini_def)
    next
      case (Inr data)
      with assms Http_response True
      have "JSON_parse e (js_to_string (reply_text data)) = None"
        by (simp add: reply_unusable_def)
      with Http_response True Inr show ?thesis
        by (simp add: callGemini_def parse_sections_def)
    qed
  qed
qed

lemma narrative_stage_unusable:
  assumes "GEMINI_API_KEY e = Some k" "k \<noteq> []"
    and "reply_unusable e (gemini e (gemini_url k) (prompt_of meta))"
  shows "fst (narrative_stage e meta) = empty_sections"
proof -
  from assms(2) obtain c cs where k: "k = c # cs" by (cases k) auto
  obtain r log where cg: "callGemini e (c # cs) meta = (r, log)"
    by (cases "callGemini e (c # cs) meta") auto
  from callGemini_unusable[OF assms(3)] cg k
  have "(\<exists>err. r = Inl err) \<or> r = Inr empty_sections" by simp
  then show ?thesis
    using assms(1) cg k by (auto simp: narrative_stage_def)
qed

subsection \<open>The blocks of the installation and usage sections\<close>

lemma trim_not_specified: "trim not_specified = not_specified"
  by code_simp

lemma not_specified_no_fence: "\<not> str_includes not_specified fence"
  by code_simp



lemma parts_of_inject:
  assumes "parts_of a d fs i u t s l = parts_of a' d' fs' i' u' t' s' l'"
  shows "a = a' \<and> d = d' \<and> fs = fs' \<and> i = i' \<and> u = u' \<and> t = t' \<and> s = s' \<and> l = l'"
proof -
  from assms have h: "a = a'" "d = d'"
    and m: "map (\<lambda>f. ''- '' @ f) fs @
              [[], ''## Installation Guide'', i, [], ''## Usage'', u, [], ''## Tech Stack'', t, [],
               ''## Project Structure'', s, [], ''## License Information'', l, []] =
            map (\<lambda>f. ''- '' @ f) fs' @
              [[], ''## Installation Guide'', i', [], ''## Usage'', u', [], ''## Tech Stack'', t', [],
               ''## Project Structure'', s', [], ''## License Information'', l', []]"
    by (simp_all add: parts_of_def)
  from m have e: "map (\<lambda>f. ''- '' @ f) fs = map (\<lambda>f. ''- '' @ f) fs'"
    and r: "i = i' \<and> u = u' \<and> t = t' \<and> s = s' \<and> l = l'"
    by (simp_all add: append_eq_append_conv)
  have "inj (\<lambda>f::string. ''- '' @ f)" by (simp add: inj_on_def)
  with e have "fs = fs'" by (simp only: inj_map_eq_map)
  with h r show ?thesis by simp
qed

subsection \<open>What the parser accepts\<close>

lemma strip_prefix_ci_Some:
  "strip_prefix_ci p s = Some rest \<longleftrightarrow>
     (\<exists>pre. s = pre @ rest \<and> map ascii_lower pre = map ascii_lower p)"
proof (induction p s rule: strip_prefix_ci.induct)
  case (1 s)
  then show ?case by auto
next
  case (2 p ps)
  then show ?case by auto
next
  case (3 p ps c cs)
  show ?case
  proof (cases "ascii_lower c = ascii_lower p")
    case True
    have "(\<exists>pre. c # cs = pre @ rest \<and> map ascii_lower pre = map ascii_lower (p # ps)) \<longleftrightarrow>
          (\<exists>pre'. cs = pre' @ rest \<and> map ascii_lower pre' = map ascii_lower ps)"
      using True by (auto simp: Cons_eq_append_conv map_eq_Cons_conv)
    with 3 True show ?thesis by simp
  next
    case False
    then have "\<not> (\<exists>pre. c # cs = pre @ rest \<and> map ascii_lower pre = map ascii_lower (p # ps))"
      by (auto simp: Cons_eq_append_conv map_eq_Cons_conv)
    with False show ?thesis by simp
  qed
qed

lemma lower_github_prefix: "map ascii_lower ''https://github.com/'' = ''https://github.com/''"
  by code_simp

lemma run_then_stop:
  assumes "list_all P xs" and "ys = [] \<or> \<not> P (hd ys)"
  shows "takeWhile P (xs @ ys) = xs" and "dropWhile P (xs @ ys) = ys"
  using assms by (induction xs) (auto simp: list_all_iff takeWhile_eq_Nil_iff dropWhile_eq_self_iff
      intro: hd_in_set)

lemma tail_matches_no_class: "tail_matches sfx \<Longrightarrow> sfx = [] \<or> \<not> repo_char (hd sfx)"
  by (cases sfx rule: tail_matches.cases) (auto simp: repo_char_def)

lemma slash_no_class: "\<not> repo_char (CHR ''/'')"
  by (simp add: repo_char_def)

lemma match_owner_repo_Some:
  "match_owner_repo rest = Some (ow, rp) \<longleftrightarrow>
     (\<exists>sfx. rest = ow @ ''/'' @ rp @ sfx \<and>
        ow \<noteq> [] \<and> rp \<noteq> [] \<and> list_all repo_char ow \<and> list_all repo_char rp \<and>
        tail_matches sfx)"
  (is "?L \<longleftrightarrow> ?R")
proof
  assume L: ?L
  have ow: "ow = takeWhile repo_char rest" "ow \<noteq> []"
    using L by (auto simp: match_owner_repo_def Let_def split: list.splits if_splits)
  from L obtain rest2 where d1: "dropWhile repo_char rest = CHR ''/'' # rest2"
    by (auto simp: match_owner_repo_def Let_def split: list.splits if_splits)
  from L d1 have rp: "rp = takeWhile repo_char rest2" "rp \<noteq> []"
    and sfx: "tail_matches (dropWhile repo_char rest2)"
    by (auto simp: match_owner_repo_def Let_def split: if_splits)
  have "rest = ow @ CHR ''/'' # rest2"
    using takeWhile_dropWhile_id[of repo_char rest] ow(1) d1 by simp
  moreover have "rest2 = rp @ dropWhile repo_char rest2"
    using rp(1) by simp
  ultimately have "rest = ow @ ''/'' @ rp @ dropWhile repo_char rest2"
    by simp
  moreover have "list_all repo_char ow" "list_all repo_char rp"
    unfolding ow(1) rp(1) by (auto simp: list_all_iff dest: set_takeWhileD)
  ultimately show ?R using ow(2) rp(2) sfx by blast
next
  assume ?R
  then obtain sfx where s: "rest = ow @ ''/'' @ rp @ sfx"
    and ne: "ow \<noteq> []" "rp \<noteq> []"
    and cl: "list_all repo_char ow" "list_all repo_char rp"
    and sfx: "tail_matches sfx"
    by blast
  have o: "takeWhile repo_char (ow @ CHR ''/'' # rp @ sfx) = ow"
          "dropWhile repo_char (ow @ CHR ''/'' # rp @ sfx) = CHR ''/'' # rp @ sfx"
    using run_then_stop[OF cl(1), of "CHR ''/'' # rp @ sfx"] slash_no_class by auto
  have r: "takeWhile repo_char (rp @ sfx) = rp" "dropWhile repo_char (rp @ sfx) = sfx"
    using run_then_stop[OF cl(2) tail_matches_no_class[OF sfx]] by auto
  show ?L
    using ne sfx by (simp add: match_owner_repo_def s o r)
qed

lemma case_option_Some_iff:
  "(case x of None \<Rightarrow> None | Some r \<Rightarrow> f r) = Some y \<longleftrightarrow> (\<exists>r. x = Some r \<and> f r = Some y)"
  by (cases x) auto

lemma parse_generic:
  "(case strip_prefix_ci p s of None \<Rightarrow> None | Some rest \<Rightarrow> match_owner_repo rest) = Some (ow, rp) \<longleftrightarrow>
     (\<exists>pre sfx. s = pre @ ow @ ''/'' @ rp @ sfx \<and>
        map ascii_lower pre = map ascii_lower p \<and>
        ow \<noteq> [] \<and> rp \<noteq> [] \<and> list_all repo_char ow \<and> list_all repo_char rp \<and>
        tail_matches sfx)"
  unfolding case_option_Some_iff strip_prefix_ci_Some match_owner_repo_Some
  by blast


lemma parseRepoUrl_Some:
  "parseRepoUrl s = Some (ow, rp) \<longleftrightarrow>
     (\<exists>pre sfx. s = pre @ ow @ ''/'' @ rp @ sfx \<and>
        map ascii_lower pre = ''https://github.com/'' \<and>
        ow \<noteq> [] \<and> rp \<noteq> [] \<and> list_all repo_char ow \<and> list_all repo_char rp \<and>
        tail_matches sfx)"
  using parse_generic[of "''https://github.com/''" s ow rp]
  unfolding parseRepoUrl_def lower_github_prefix .

lemma tail_without_hash:
  "CHR ''#'' \<notin> set sfx \<Longrightarrow> tail_matches sfx \<longleftrightarrow> sfx = [] \<or> sfx = ''/''"
  by (cases sfx rule: tail_matches.cases) auto

lemma github_reference_iff:
  assumes "CHR ''#'' \<notin> set s"
  shows "parseRepoUrl s = Some (ow, rp) \<longleftrightarrow> github_reference s ow rp"
proof -
  have t: "tail_matches sfx \<longleftrightarrow> sfx = [] \<or> sfx = ''/''"
    if "s = pre @ ow @ ''/'' @ rp @ sfx" for pre sfx
  proof -
    from assms that have "CHR ''#'' \<notin> set sfx" by auto
    then show ?thesis by (rule tail_without_hash)
  qed
  have G: "(\<exists>pre sfx. s = pre @ ow @ ''/'' @ rp @ sfx \<and> map ascii_lower pre = P \<and>
              ow \<noteq> [] \<and> rp \<noteq> [] \<and> list_all repo_char ow \<and> list_all repo_char rp \<and>
              tail_matches sfx) \<longleftrightarrow>
           (\<exists>pre sfx. s = pre @ ow @ ''/'' @ rp @ sfx \<and> map ascii_lower pre = P \<and>
              ow \<noteq> [] \<and> rp \<noteq> [] \<and> list_all repo_char ow \<and> list_all repo_char rp \<and>
              (sfx = [] \<or> sfx = ''/''))" for P
    using t by blast
  show ?thesis
    unfolding parseRepoUrl_Some github_reference_def by (rule G)
qed

text \<open>A fragment of more than one character is not accepted; one character is.\<close>

lemma fragment_rejected:
  "parseRepoUrl ''https://github.com/acme/widget#readme'' = None \<and>
   parseRepoUrl ''https://github.com/acme/widget#r'' = Some (''acme'', ''widget'')"
  by code_simp

section \<open>The narrative stage fails soft\<close>

text \<open>
  Claim C3. Once the metadata is fetched and a key of the generative service is set, a
  transport error, a response that is not a success, or a payload that does not parse
  leaves the narrative stage with the empty record: the exception of \<^verbatim>\<open>callGemini\<close>
  is caught in the handler, which goes on to assemble the document and replies with the
  payload, not with an error.
\<close>

theorem narrative_stage_fails_soft:
  assumes ref: "parseRepoUrl (trim raw) = Some (ow, rp)"
    and tok: "GITHUB_TOKEN e = Some tok" "tok \<noteq> []"
    and meta: "fetchRepoMetadata e ow rp tok = (Inr meta, log)"
    and key: "GEMINI_API_KEY e = Some k" "k \<noteq> []"
    and fail: "reply_unusable e (gemini e (gemini_url k) (prompt_of meta))"
  shows "fst (narrative_stage e meta) = empty_sections \<and>
         (\<exists>p. fst (generateReadmeRoute e (Some raw)) = Payload p \<and> metadata p = meta \<and>
               buildReadme meta (fill_description meta empty_sections)
                 (mark_filled (fill_description meta empty_sections)) = Inr (readme p))"
proof -
  have ns: "fst (narrative_stage e meta) = empty_sections"
    using key fail by (rule narrative_stage_unusable)
  from tok obtain c cs where c: "tok = c # cs" by (cases tok) auto
  from ref have ne: "trim raw \<noteq> []" by (auto simp: parseRepoUrl_def)
  obtain errs log2 where st: "narrative_stage e meta = (empty_sections, errs, log2)"
    using ns by (cases "narrative_stage e meta") auto
  have route: "fst (generateReadmeRoute e (Some raw)) =
                 respond meta (fill_description meta empty_sections)
                   ((if env_set (GEMINI_API_KEY e) then []
                     else [(''MISSING_GEMINI_API_KEY'',
                            ''Server missing GEMINI_API_KEY; generated content may be limited.'')])
                    @ errs)"
    using ref tok c ne meta st by (simp add: generateReadmeRoute_def Let_def)
  have wt: "well_typed (fill_description meta empty_sections)"
    by (simp add: well_typed_fill well_typed_empty)
  from respond_typed[OF wt, of meta]
  obtain p where "respond meta (fill_description meta empty_sections)
                   ((if env_set (GEMINI_API_KEY e) then []
                     else [(''MISSING_GEMINI_API_KEY'',
                            ''Server missing GEMINI_API_KEY; generated content may be limited.'')])
                    @ errs) = Payload p"
     "metadata p = meta"
     "buildReadme meta (fill_description meta empty_sections)
                 (mark_filled (fill_description meta empty_sections)) = Inr (readme p)"
    by blast
  with route ns show ?thesis by auto
qed

text \<open>The sample world, where the service cannot be reached.\<close>

theorem narrative_stage_fails_soft_witness:
  "reply_unusable widget_env (gemini widget_env (gemini_url ''key'') (prompt_of widget_meta)) \<and>
   fst (narrative_stage widget_env widget_meta) = empty_sections \<and>
   (\<exists>p. fst (generateReadmeRoute widget_env (Some ''https://github.com/acme/widget'')) = Payload p \<and>
        metadata p = widget_meta)"
proof -
  have h1: "parseRepoUrl (trim ''https://github.com/acme/widget'') = Some (''acme'', ''widget'')"
    by code_simp
  have h2: "GITHUB_TOKEN widget_env = Some ''token''" by (simp add: widget_env_def)
  have h3: "''token'' \<noteq> []" by simp
  have h4: "fetchRepoMetadata widget_env ''acme'' ''widget'' ''token'' =
              (Inr widget_meta,
               [(''https://api.github.com/repos/acme/widget'', True),
                (''https://api.github.com/repos/acme/widget/languages'', True),
                (''https://api.github.com/repos/acme/widget/git/trees/main?recursive=1'', True)])"
    by code_simp
  have h5: "GEMINI_API_KEY widget_env = Some ''key''" by (simp add: widget_env_def)
  have h6: "''key'' \<noteq> []" by simp
  have h7: "reply_unusable widget_env (gemini widget_env (gemini_url ''key'') (prompt_of widget_meta))"
    by (simp add: widget_env_def reply_unusable_def)
  from narrative_stage_fails_soft[OF h1 h2 h3 h4 h5 h6 h7] h7 show ?thesis by blast
qed

section \<open>The credential of the provider\<close>

text \<open>
  Claim C6, as amended. With no credential of the hosting provider, the reply is
  \<^verbatim>\<open>MISSING_GITHUB_TOKEN\<close> with status 500 when the reference is valid; a missing or
  invalid reference is rejected first, with status 400. No call is made to the network.
\<close>

theorem credential_checked_after_reference:
  assumes "\<not> env_set (GITHUB_TOKEN e)"
  shows "generateReadmeRoute e body_repoUrl =
           (case body_repoUrl of
              None \<Rightarrow> (ErrorResponse 400 ''Repository URL is required.'' ''MISSING_REPO_URL'', [])
            | Some raw \<Rightarrow>
                if trim raw = []
                then (ErrorResponse 400 ''Repository URL is required.'' ''MISSING_REPO_URL'', [])
                else if parseRepoUrl (trim raw) = None
                then (ErrorResponse 400
                        ''Invalid GitHub repository URL. Expected https://github.com/<owner>/<repo>''
                        ''INVALID_REPO_URL'', [])
                else (ErrorResponse 500 ''Server missing GITHUB_TOKEN environment variable.''
                        ''MISSING_GITHUB_TOKEN'', []))"
  using assms
  by (auto simp: generateReadmeRoute_def env_set_iff split: option.splits list.splits)

theorem credential_checked_after_reference_witness:
  "\<not> env_set (GITHUB_TOKEN (widget_env\<lparr>GITHUB_TOKEN := None\<rparr>)) \<and>
   generateReadmeRoute (widget_env\<lparr>GITHUB_TOKEN := None\<rparr>)
       (Some '' https://github.com/acme/widget '') =
     (ErrorResponse 500 ''Server missing GITHUB_TOKEN environment variable.''
        ''MISSING_GITHUB_TOKEN'', [])"
proof -
  have h: "\<not> env_set (GITHUB_TOKEN (widget_env\<lparr>GITHUB_TOKEN := None\<rparr>))"
    by (simp add: widget_env_def)
  have t: "trim '' https://github.com/acme/widget '' = ''https://github.com/acme/widget''"
    by code_simp
  have p: "parseRepoUrl ''https://github.com/acme/widget'' = Some (''acme'', ''widget'')"
    by code_simp
  show ?thesis
    using h credential_checked_after_reference[OF h, of "Some '' https://github.com/acme/widget ''"]
    by (simp add: t p)
qed

text \<open>
  Claim C6 as stated fails: with no credential and the reference \<^verbatim>\<open>not-a-url\<close>, the
  reply is \<^verbatim>\<open>INVALID_REPO_URL\<close>, since the reference is checked before the credential.
\<close>

theorem missing_credential_counterexample:
  "\<not> env_set (GITHUB_TOKEN (widget_env\<lparr>GITHUB_TOKEN := None\<rparr>)) \<and>
   generateReadmeRoute (widget_env\<lparr>GITHUB_TOKEN := None\<rparr>) (Some ''not-a-url'') =
     (ErrorResponse 400
        ''Invalid GitHub repository URL. Expected https://github.com/<owner>/<repo>''
        ''INVALID_REPO_URL'', [])"
  by code_simp

section \<open>Metadata is all or nothing\<close>

text \<open>
  Claim C7. For a valid reference and a credential that is set: if the call for the
  repository, the call for the languages, or the call for the tree of the default branch
  does not return a success, then \<^verbatim>\<open>fetchRepoMetadata\<close> throws (there is no metadata
  record) and the reply is \<^verbatim>\<open>GITHUB_API_ERROR\<close> with status 502, which carries no
  document.
\<close>

theorem fetch_all_or_nothing:
  assumes ref: "parseRepoUrl (trim raw) = Some (ow, rp)"
    and tok: "GITHUB_TOKEN e = Some tok" "tok \<noteq> []"
    and fail: "\<not> response_ok (github_repo e (repos_base ow rp) tok) \<or>
               \<not> response_ok (github_languages e (repos_base ow rp @ ''/languages'') tok) \<or>
               (\<exists>rd. fetchJson (github_repo e (repos_base ow rp) tok) = Inr rd \<and>
                  \<not> response_ok
                      (github_tree e (tree_url (repos_base ow rp) (rd_default_branch rd)) tok))"
  shows "\<exists>err. fst (fetchRepoMetadata e ow rp tok) = Inl err \<and>
           fst (generateReadmeRoute e (Some raw)) =
             ErrorResponse 502 (take 500 (''GitHub API error: '' @ message err))
               ''GITHUB_API_ERROR''"
proof -
  have "\<exists>err. fst (fetchRepoMetadata e ow rp tok) = Inl err"
    using fail
    by (auto simp: fetchRepoMetadata_def Let_def split: sum.splits
             dest: fetchJson_Inr_ok)
  then obtain err where err: "fst (fetchRepoMetadata e ow rp tok) = Inl err" ..
  from tok obtain c cs where c: "tok = c # cs" by (cases tok) auto
  from ref have ne: "trim raw \<noteq> []" by (auto simp: parseRepoUrl_Nil)
  have "fst (generateReadmeRoute e (Some raw)) =
          ErrorResponse 502 (take 500 (''GitHub API error: '' @ message err)) ''GITHUB_API_ERROR''"
    using ref tok c ne err
    by (cases "fetchRepoMetadata e ow rp (c # cs)")
       (simp add: generateReadmeRoute_def)
  with err show ?thesis by blast
qed

text \<open>The sample world, where the call for the languages returns 404.\<close>

theorem fetch_all_or_nothing_witness:
  "parseRepoUrl (trim ''https://github.com/acme/widget'') = Some (''acme'', ''widget'') \<and>
   \<not> response_ok
       (github_languages
          (widget_env\<lparr>github_languages := (\<lambda>url tok. Http_response 404 ''Not Found'' ''{}'' (Inr []))\<rparr>)
          (repos_base ''acme'' ''widget'' @ ''/languages'') ''token'') \<and>
   fst (generateReadmeRoute
          (widget_env\<lparr>github_languages := (\<lambda>url tok. Http_response 404 ''Not Found'' ''{}'' (Inr []))\<rparr>)
          (Some ''https://github.com/acme/widget'')) =
     ErrorResponse 502 ''GitHub API error: HTTP 404 Not Found: {}'' ''GITHUB_API_ERROR''"
proof -
  let ?e = "widget_env\<lparr>github_languages := (\<lambda>url tok. Http_response 404 ''Not Found'' ''{}'' (Inr []))\<rparr>"
  have h1: "parseRepoUrl (trim ''https://github.com/acme/widget'') = Some (''acme'', ''widget'')"
    by code_simp
  have h2: "GITHUB_TOKEN ?e = Some ''token''" by (simp add: widget_env_def)
  have h3: "''token'' \<noteq> []" by simp
  have h4: "\<not> response_ok (github_languages ?e (repos_base ''acme'' ''widget'' @ ''/languages'') ''token'')"
    by simp
  have f: "fst (fetchRepoMetadata ?e ''acme'' ''widget'' ''token'') =
             Inl (Error ''HTTP 404 Not Found: {}'')"
    by code_simp
  from fetch_all_or_nothing[OF h1 h2 h3, of] h4
  obtain err where e: "fst (fetchRepoMetadata ?e ''acme'' ''widget'' ''token'') = Inl err"
    and r: "fst (generateReadmeRoute ?e (Some ''https://github.com/acme/widget'')) =
             ErrorResponse 502 (take 500 (''GitHub API error: '' @ message err)) ''GITHUB_API_ERROR''"
    by blast
  from e f have "err = Error ''HTTP 404 Not Found: {}''" by simp
  with r h1 h4 show ?thesis by simp
qed

section \<open>The sections of the document\<close>

text \<open>
  Claim C1, evaluated where it fails. The repository has the description
  \<^verbatim>\<open>A widget toolkit\<close> and the generative service replies with an empty description, a
  record of the declared type. The document has its eight sections in order, but the line
  of the Description section is empty: \<^verbatim>\<open>??\<close> keeps the empty string where the
  features are filtered and the title falls back. The same holds for the whole handler.
\<close>

theorem blank_description_renders_empty_section:
  "well_typed (empty_sections\<lparr>g_description := JStr []\<rparr>) \<and>
   buildReadme_parts widget_meta (empty_sections\<lparr>g_description := JStr []\<rparr>) [] =
     Inr (parts_of ''widget'' [] [not_specified]
            (installation_block not_specified) not_specified
            (techStack_block (techStack_of widget_meta))
            (structure_block (structureLines_of widget_meta)) ''MIT'') \<and>
   map_option readme
     (payload_of (fst (generateReadmeRoute (env_with_reply blank_reply_text blank_reply_parsed)
                         (Some ''https://github.com/acme/widget'')))) =
     Some (join [CHR 0x0A]
            (parts_of ''widget'' [] [not_specified]
               (installation_block not_specified) not_specified
               (techStack_block (techStack_of widget_meta))
               (structure_block (structureLines_of widget_meta)) ''MIT''))"
  by code_simp

text \<open>
  Claim C2, evaluated where it fails. With every field of the narrative omitted, the
  Installation Guide section is the placeholder inside a \<^verbatim>\<open>bash\<close> fence, not the
  literal placeholder: the line that pushes the installation has no guard for the
  placeholder, where the line that pushes the usage has one. With the installation and
  the usage present but empty, both sections are an empty fenced block: \<^verbatim>\<open>??\<close> keeps
  the empty string.
\<close>

theorem omitted_installation_is_fenced:
  "buildReadme_parts widget_meta empty_sections [] =
     Inr [''# widget'', [],
          ''## Description'', ''A widget toolkit'', [],
          ''## Features'', ''- Not specified.'', [],
          ''## Installation Guide'',
          ''```bash'' @ [CHR 0x0A] @ ''Not specified.'' @ [CHR 0x0A] @ ''```'', [],
          ''## Usage'', ''Not specified.'', [],
          ''## Tech Stack'', ''- TypeScript'' @ [CHR 0x0A] @ ''- CSS'', [],
          ''## Project Structure'',
          ''```'' @ [CHR 0x0A] @ ''src'' @ [CHR 0x0A] @ ''src/index.ts'' @ [CHR 0x0A] @ ''```'', [],
          ''## License Information'', ''MIT'', []] \<and>
   ''```bash'' @ [CHR 0x0A] @ ''Not specified.'' @ [CHR 0x0A] @ ''```'' \<noteq> ''Not specified.'' \<and>
   buildReadme_parts widget_meta
       \<lparr>g_description = JUndefined, g_features = JUndefined,
        g_installation = JStr [], g_usage = JStr []\<rparr> [] =
     Inr [''# widget'', [],
          ''## Description'', ''A widget toolkit'', [],
          ''## Features'', ''- Not specified.'', [],
          ''## Installation Guide'', ''```bash'' @ [CHR 0x0A] @ [CHR 0x0A] @ ''```'', [],
          ''## Usage'', ''```'' @ [CHR 0x0A] @ [CHR 0x0A] @ ''```'', [],
          ''## Tech Stack'', ''- TypeScript'' @ [CHR 0x0A] @ ''- CSS'', [],
          ''## Project Structure'',
          ''```'' @ [CHR 0x0A] @ ''src'' @ [CHR 0x0A] @ ''src/index.ts'' @ [CHR 0x0A] @ ''```'', [],
          ''## License Information'', ''MIT'', []]"
  by code_simp



section \<open>The shape of the reply\<close>

text \<open>
  Claim C4, evaluated where it fails. The reply \<^verbatim>\<open>{"description":5,"usage":"npm start"}\<close>
  parses; the description, a number, is not dropped but kept in the record, and the
  request ends in \<^verbatim>\<open>INTERNAL_ERROR\<close> when the assembler calls \<^verbatim>\<open>trim\<close> on it.
\<close>

theorem wrong_shape_description_kept:
  "parse_sections (env_with_reply number_reply_text number_reply_parsed) (JStr number_reply_text) =
     \<lparr>g_description = JNum 5, g_features = JUndefined, g_installation = JUndefined,
      g_usage = JStr ''npm start''\<rparr> \<and>
   fst (generateReadmeRoute (env_with_reply number_reply_text number_reply_parsed)
          (Some ''https://github.com/acme/widget'')) =
     ErrorResponse 500 ''Unexpected server error.'' ''INTERNAL_ERROR''"
  by code_simp

text \<open>
  Claim C10. For the reply \<^verbatim>\<open>{"features":["Fast",1]}\<close>: the metadata is fetched, the
  array is kept with its number, the assembler throws on it, and the request ends with
  status 500 and \<^verbatim>\<open>INTERNAL_ERROR\<close>, after all four calls to the network.
\<close>

theorem non_string_feature_aborts_request:
  "fst (fetchRepoMetadata (env_with_reply features_reply_text features_reply_parsed)
          ''acme'' ''widget'' ''token'') = Inr widget_meta \<and>
   fst (callGemini (env_with_reply features_reply_text features_reply_parsed) ''key'' widget_meta) =
     Inr (empty_sections\<lparr>g_features := JArr [JStr ''Fast'', JNum 1]\<rparr>) \<and>
   buildReadme widget_meta (empty_sections\<lparr>g_features := JArr [JStr ''Fast'', JNum 1]\<rparr>)
     [(Features, True)] = Inl (TypeError ''trim is not a function'') \<and>
   generateReadmeRoute (env_with_reply features_reply_text features_reply_parsed)
       (Some ''https://github.com/acme/widget'') =
     (ErrorResponse 500 ''Unexpected server error.'' ''INTERNAL_ERROR'',
      [(''https://api.github.com/repos/acme/widget'', True),
       (''https://api.github.com/repos/acme/widget/languages'', True),
       (''https://api.github.com/repos/acme/widget/git/trees/main?recursive=1'', True),
       (gemini_url ''key'', True)])"
  by code_simp

section \<open>The flags of the filled sections\<close>

text \<open>
  Claim C8, evaluated where it fails. No key of the generative service is set, so the
  service is never called (the log holds the three calls to the provider); the
  description of the repository, \<^verbatim>\<open>Kit\<close>, is shorter than five characters and is
  copied into the record, and \<^verbatim>\<open>filledWithGemini\<close> marks the description as filled.
\<close>

theorem description_flag_without_generator:
  "map_option filledWithGemini
     (payload_of (fst (generateReadmeRoute short_description_env
                         (Some ''https://github.com/acme/widget'')))) =
     Some [(Description, True)] \<and>
   snd (generateReadmeRoute short_description_env (Some ''https://github.com/acme/widget'')) =
     [(''https://api.github.com/repos/acme/widget'', True),
      (''https://api.github.com/repos/acme/widget/languages'', True),
      (''https://api.github.com/repos/acme/widget/git/trees/main?recursive=1'', True)]"
  by code_simp

section \<open>The reference\<close>

text \<open>
  Claim C5, as amended. For an input whose trimmed form has no hash, the parser succeeds
  with owner and name exactly when the trimmed form is \<^verbatim>\<open>https://github.com/\<close> (in
  either case), the owner, a slash and the name, both not empty and over letters, digits,
  dot, underscore and hyphen, with at most one trailing slash. When it fails, the handler
  replies with status 400 and makes no call to the network: \<^verbatim>\<open>INVALID_REPO_URL\<close> with
  the message of the claim, or \<^verbatim>\<open>MISSING_REPO_URL\<close> when the trimmed form is empty.
\<close>

theorem reference_accepted_iff_github_pattern:
  assumes "CHR ''#'' \<notin> set (trim raw)"
  shows "(parseRepoUrl (trim raw) = Some (ow, rp) \<longleftrightarrow> github_reference (trim raw) ow rp) \<and>
         (parseRepoUrl (trim raw) = None \<longrightarrow>
            generateReadmeRoute e (Some raw) =
              (if trim raw = []
               then ErrorResponse 400 ''Repository URL is required.'' ''MISSING_REPO_URL''
               else ErrorResponse 400
                      ''Invalid GitHub repository URL. Expected https://github.com/<owner>/<repo>''
                      ''INVALID_REPO_URL'',
               []))"
  using github_reference_iff[OF assms, of ow rp]
  by (simp add: generateReadmeRoute_def)

theorem reference_accepted_iff_github_pattern_witness:
  "CHR ''#'' \<notin> set (trim '' HTTPS://GitHub.com/acme/widget/ '') \<and>
   parseRepoUrl (trim '' HTTPS://GitHub.com/acme/widget/ '') = Some (''acme'', ''widget'') \<and>
   github_reference (trim '' HTTPS://GitHub.com/acme/widget/ '') ''acme'' ''widget'' \<and>
   CHR ''#'' \<notin> set (trim ''not-a-url'') \<and>
   parseRepoUrl (trim ''not-a-url'') = None \<and>
   generateReadmeRoute widget_env (Some ''not-a-url'') =
     (ErrorResponse 400
        ''Invalid GitHub repository URL. Expected https://github.com/<owner>/<repo>''
        ''INVALID_REPO_URL'', [])"
proof -
  have h: "CHR ''#'' \<notin> set (trim '' HTTPS://GitHub.com/acme/widget/ '')" by code_simp
  have p: "parseRepoUrl (trim '' HTTPS://GitHub.com/acme/widget/ '') = Some (''acme'', ''widget'')"
    by code_simp
  have h2: "CHR ''#'' \<notin> set (trim ''not-a-url'')" by code_simp
  have p2: "parseRepoUrl (trim ''not-a-url'') = None" by code_simp
  have t2: "trim ''not-a-url'' \<noteq> []" by code_simp
  from reference_accepted_iff_github_pattern[OF h, of "''acme''" "''widget''"] p
  have a: "github_reference (trim '' HTTPS://GitHub.com/acme/widget/ '') ''acme'' ''widget''"
    by blast
  from reference_accepted_iff_github_pattern[OF h2, of _ _ widget_env] p2 t2
  have b: "generateReadmeRoute widget_env (Some ''not-a-url'') =
     (ErrorResponse 400
        ''Invalid GitHub repository URL. Expected https://github.com/<owner>/<repo>''
        ''INVALID_REPO_URL'', [])"
    by simp
  from h p a h2 p2 b show ?thesis by blast
qed

text \<open>
  Claim C5 as stated fails in three places: a reference on another host matches the
  pattern as worded and is rejected; a reference in capitals does not match it and is
  accepted; a blank input does not match it and is answered with \<^verbatim>\<open>MISSING_REPO_URL\<close>,
  not with the message of an invalid reference.
\<close>

theorem reference_pattern_counterexample:
  "spec_reference_pattern ''https://gitlab.com/acme/widget'' \<and>
   parseRepoUrl (trim ''https://gitlab.com/acme/widget'') = None \<and>
   \<not> spec_reference_pattern ''HTTPS://GITHUB.COM/acme/widget'' \<and>
   parseRepoUrl (trim ''HTTPS://GITHUB.COM/acme/widget'') = Some (''acme'', ''widget'') \<and>
   \<not> spec_reference_pattern (trim ''   '') \<and>
   generateReadmeRoute widget_env (Some ''   '') =
     (ErrorResponse 400 ''Repository URL is required.'' ''MISSING_REPO_URL'', [])"
proof -
  have a: "spec_reference_pattern ''https://gitlab.com/acme/widget''"
    unfolding spec_reference_pattern_def
    by (rule exI[of _ "''gitlab.com''"], rule exI[of _ "''acme''"], rule exI[of _ "''widget''"],
        rule exI[of _ "[]"]) (simp add: repo_char_def)
  have b: "parseRepoUrl (trim ''https://gitlab.com/acme/widget'') = None" by code_simp
  have c: "\<not> spec_reference_pattern ''HTTPS://GITHUB.COM/acme/widget''"
    by (simp add: spec_reference_pattern_def)
  have d: "parseRepoUrl (trim ''HTTPS://GITHUB.COM/acme/widget'') = Some (''acme'', ''widget'')"
    by code_simp
  have t: "trim ''   '' = []" by code_simp
  have e: "\<not> spec_reference_pattern (trim ''   '')"
    unfolding t by (simp add: spec_reference_pattern_def)
  have f: "generateReadmeRoute widget_env (Some ''   '') =
     (ErrorResponse 400 ''Repository URL is required.'' ''MISSING_REPO_URL'', [])"
    by code_simp
  from a b c d e f show ?thesis by blast
qed

end
